theory Spec2Isabelle
  imports Main "HOL-Library.Word"
begin

section \<open>Data model of \<^verbatim>\<open>certificates.go\<close>\<close>

text \<open>
  Go slices are modelled as \<open>'a list option\<close>: \<open>None\<close> is the \<^verbatim>\<open>nil\<close> slice,
  \<open>Some xs\<close> a non-nil slice with the elements \<open>xs\<close> (so \<open>Some []\<close> is the empty,
  non-nil slice). Pointers that may be \<^verbatim>\<open>nil\<close> are options as well.
\<close>

type_synonym byte = "8 word"
type_synonym bytes = "byte list option"

text \<open>\<^verbatim>\<open>type Time int64\<close>: seconds since the epoch.\<close>

type_synonym Time = "64 word"

text \<open>
  A \<^verbatim>\<open>time.Time\<close> of the standard library, as its comparisons read it: the seconds
  since January 1 of the year 1, a signed 64-bit number (the result of its \<^verbatim>\<open>sec()\<close>),
  and the nanoseconds within the second (its \<^verbatim>\<open>nsec()\<close>, from 0 to 999999999).
\<close>

record instant =
  secs :: "64 word"
  nsecs :: nat

record Validity =
  NotBefore :: "Time option"
  NotAfter :: "Time option"

record Extension =
  OID :: "64 word"
  Critical :: bool
  Value :: bytes

record Certificate =
  SerialNumber :: "64 word"
  Issuer :: string
  Validity :: "Validity option"
  Subject :: string
  PubKey :: bytes
  Extensions :: "Extension list option"
  Signature :: bytes

text \<open>
  The outcome of a call: it returns a value, returns an error (Go's \<^verbatim>\<open>errors.New\<close>
  with its message), or panics on a nil-pointer dereference.
\<close>

datatype 'a result = Ok 'a | Err string | Panic

text \<open>The messages of the errors the source creates, named after the kinds of the specification.\<close>

definition NotYetValidError :: string where
  "NotYetValidError = ''certificate can't be valid yet''"

definition ExpiredError :: string where
  "ExpiredError = ''certificate is not valid anymore''"

definition EncodeError :: string where
  "EncodeError = ''Failed to serialize certificate for validation''"

definition BadSignatureError :: string where
  "BadSignatureError = ''Signature validation failed''"

definition UnknownIssuerError :: string where
  "UnknownIssuerError = ''certificate is not signed by a known issuer''"

definition RootInvalidPrefix :: string where
  "RootInvalidPrefix = ''Error validating issuing root certificate: ''"

definition NoLeafError :: string where
  "NoLeafError = ''Can't find non-intermediate certificate in certificate chain''"

definition NoIssuerPrefix :: string where
  "NoIssuerPrefix =
     ''No issuer for the client certificate was found in the intermediate certificates: ''"

definition BrokenChainError :: string where
  "BrokenChainError = ''Validation error in chain of intermediate certificates''"

definition NoTrustAnchorError :: string where
  "NoTrustAnchorError =
     ''The intermediate chain is self signed and not signed by one of the root certs of this pool''"

text \<open>
  What the source takes from outside the repository: the encoder of the codec library
  (\<^verbatim>\<open>enc.Encode\<close> writing into a buffer: the bytes written and the error, if any), the
  Ed25519 signature scheme (whether a signature is valid for a message under a public key
  of 32 bytes), and the reading of the system clock, held fixed for the duration of a call.
\<close>

record env =
  codec_Encode :: "Certificate \<Rightarrow> bytes \<times> string option"
  signature_valid :: "bytes \<Rightarrow> bytes \<Rightarrow> bytes \<Rightarrow> bool"
  time_Now :: instant

section \<open>Operations\<close>

text \<open>Go's \<^verbatim>\<open>append(s, t...)\<close>: nil only when both are nil.\<close>

definition append_slice :: "'a list option \<Rightarrow> 'a list option \<Rightarrow> 'a list option" where
  "append_slice s t =
     (case (s, t) of
        (None, None) \<Rightarrow> None
      | (None, Some ys) \<Rightarrow> (if ys = [] then None else Some ys)
      | (Some xs, None) \<Rightarrow> Some xs
      | (Some xs, Some ys) \<Rightarrow> Some (xs @ ys))"

text \<open>
  \<^verbatim>\<open>Certificate.Copy\<close>. The source reads \<^verbatim>\<open>c.Validity.NotBefore\<close> without a nil
  check, so a certificate with no validity makes it panic.
\<close>

definition Copy :: "Certificate \<Rightarrow> Certificate result" where
  "Copy c =
     (let p2 = append_slice (Some []) (PubKey c) in
      case Validity c of
        None \<Rightarrow> Panic
      | Some v \<Rightarrow>
          Ok \<lparr> SerialNumber = SerialNumber c,
               Issuer = Issuer c,
               Validity = Some \<lparr> NotBefore = NotBefore v, NotAfter = NotAfter v \<rparr>,
               Subject = Subject c,
               PubKey = p2,
               Extensions = append_slice (Some []) (Extensions c),
               Signature = append_slice (Some []) (Signature c) \<rparr>)"

text \<open>\<^verbatim>\<open>Certificate.Bytes\<close>: \<^verbatim>\<open>Serialize\<close> into a fresh buffer.\<close>

definition Serialize :: "env \<Rightarrow> Certificate \<Rightarrow> bytes \<times> string option" where
  "Serialize E cert = codec_Encode E cert"

definition Bytes :: "env \<Rightarrow> Certificate \<Rightarrow> bytes \<times> string option" where
  "Bytes E c = Serialize E c"

text \<open>
  \<^verbatim>\<open>time.Unix(sec, 0)\<close> of the standard library adds the seconds between the year 1
  and 1970 to \<^verbatim>\<open>sec\<close> in \<^verbatim>\<open>int64\<close>, so the sum wraps around for the largest values
  of \<^verbatim>\<open>sec\<close>. \<^verbatim>\<open>Time.StdTime\<close> dereferences its receiver.
\<close>

definition unixToInternal :: "64 word" where
  "unixToInternal = 62135596800"

definition time_Unix :: "Time \<Rightarrow> instant" where
  "time_Unix sec = \<lparr> secs = sec + unixToInternal, nsecs = 0 \<rparr>"

definition StdTime :: "Time option \<Rightarrow> instant result" where
  "StdTime t = (case t of None \<Rightarrow> Panic | Some s \<Rightarrow> Ok (time_Unix s))"

text \<open>\<^verbatim>\<open>Time.IsZero\<close>: \<^verbatim>\<open>t == nil || int64(*t) == 0\<close>.\<close>

definition IsZero :: "Time option \<Rightarrow> bool" where
  "IsZero t = (case t of None \<Rightarrow> True | Some s \<Rightarrow> sint s = 0)"

text \<open>
  \<^verbatim>\<open>Time.Before\<close> and \<^verbatim>\<open>Time.After\<close>, for a reading of the clock against a time made
  by \<^verbatim>\<open>time.Unix\<close> (which has no monotonic reading): the seconds are compared as signed
  numbers, then the nanoseconds.
\<close>

definition time_Before :: "instant \<Rightarrow> instant \<Rightarrow> bool" where
  "time_Before t u = (sint (secs t) < sint (secs u) \<or> secs t = secs u \<and> nsecs t < nsecs u)"

definition time_After :: "instant \<Rightarrow> instant \<Rightarrow> bool" where
  "time_After t u = (sint (secs t) > sint (secs u) \<or> secs t = secs u \<and> nsecs t > nsecs u)"


text \<open>
  \<^verbatim>\<open>ed25519.Verify(publicKey, message, sig)\<close>: the library panics when the public key
  is not 32 bytes long, and otherwise reports whether the signature is valid.
\<close>

definition len :: "'a list option \<Rightarrow> nat" where
  "len s = (case s of None \<Rightarrow> 0 | Some xs \<Rightarrow> length xs)"

definition PublicKeySize :: nat where
  "PublicKeySize = 32"

definition ed25519_Verify :: "env \<Rightarrow> bytes \<Rightarrow> bytes \<Rightarrow> bytes \<Rightarrow> bool result" where
  "ed25519_Verify E publicKey message sig =
     (if len publicKey \<noteq> PublicKeySize then Panic
      else Ok (signature_valid E publicKey message sig))"

text \<open>
  Sequencing of calls that may return an error or panic: the rest runs only after a
  normal return, as the statements after an early \<^verbatim>\<open>return\<close> do.
\<close>

definition and_then :: "'a result \<Rightarrow> ('a \<Rightarrow> 'b result) \<Rightarrow> 'b result" where
  "and_then r f = (case r of Ok x \<Rightarrow> f x | Err e \<Rightarrow> Err e | Panic \<Rightarrow> Panic)"

text \<open>Dereferencing a pointer: a nil pointer panics.\<close>

definition deref :: "'a option \<Rightarrow> 'a result" where
  "deref p = (case p of None \<Rightarrow> Panic | Some x \<Rightarrow> Ok x)"

text \<open>
  \<^verbatim>\<open>validateCertificate\<close>: copy, \<^verbatim>\<open>NotBefore\<close> check, \<^verbatim>\<open>NotAfter\<close> check,
  signature check over the bytes of the copy with its signature set to nil.
\<close>

definition validateCertificate :: "env \<Rightarrow> Certificate \<Rightarrow> bytes \<Rightarrow> unit result" where
  "validateCertificate E origCert pubKey =
     and_then (Copy origCert) (\<lambda>cert.
     and_then (deref (Validity cert)) (\<lambda>v.
     and_then
       (if \<not> IsZero (NotBefore v) then
          and_then (StdTime (NotBefore v)) (\<lambda>notBefore.
            if time_Before (time_Now E) notBefore then Err NotYetValidError else Ok ())
        else Ok ()) (\<lambda>_.
     and_then
       (if \<not> IsZero (NotAfter v) then
          and_then (StdTime (NotAfter v)) (\<lambda>notAfter.
            if time_After (time_Now E) notAfter then Err ExpiredError else Ok ())
        else Ok ()) (\<lambda>_.
     let sig = Signature cert;
         cert = cert\<lparr>Signature := None\<rparr>;
         (certBytes, err) = Bytes E cert
     in if err \<noteq> None then Err EncodeError
        else
          and_then (ed25519_Verify E pubKey certBytes sig) (\<lambda>verified.
          if \<not> verified then Err BadSignatureError else Ok ())))))"

text \<open>
  \<^verbatim>\<open>CertPool\<close> is \<^verbatim>\<open>map[string]*Certificate\<close>: a key may be bound to a nil
  pointer. A lookup of a missing key gives the nil pointer and \<^verbatim>\<open>false\<close>.
\<close>

type_synonym CertPool = "string \<rightharpoonup> Certificate option"

definition lookup_ptr :: "('k \<rightharpoonup> 'v option) \<Rightarrow> 'k \<Rightarrow> 'v option \<times> bool" where
  "lookup_ptr m k = (case m k of None \<Rightarrow> (None, False) | Some p \<Rightarrow> (p, True))"

text \<open>\<^verbatim>\<open>NewCertPool\<close>, on non-nil root certificates.\<close>

definition NewCertPool :: "Certificate list \<Rightarrow> CertPool" where
  "NewCertPool rootCerts = fold (\<lambda>c p. p(Subject c \<mapsto> Some c)) rootCerts Map.empty"

text \<open>\<^verbatim>\<open>CertPool.Validate\<close>.\<close>

definition Validate :: "env \<Rightarrow> CertPool \<Rightarrow> Certificate \<Rightarrow> unit result" where
  "Validate E c cert =
     (let (issuerCert, exists) = lookup_ptr c (Issuer cert) in
      if \<not> exists \<or> issuerCert = None then Err UnknownIssuerError
      else
        and_then (deref issuerCert) (\<lambda>issuerCert.
        case validateCertificate E issuerCert (PubKey issuerCert) of
          Err e \<Rightarrow> Err (RootInvalidPrefix @ e)
        | Panic \<Rightarrow> Panic
        | Ok _ \<Rightarrow> validateCertificate E cert (PubKey issuerCert)))"

text \<open>
  \<^verbatim>\<open>CertPool.ValidateBundle\<close>, on a bundle of non-nil certificates. Its three loops:
  the two maps, the classification (the intermediates in order, the last
  non-intermediate as client certificate), and the walk over the intermediates, which
  returns at the first failed validation and keeps the last certificate with no issuer
  in the bundle as top of the chain.
\<close>

definition issuerMap_of :: "Certificate list \<Rightarrow> (string \<rightharpoonup> Certificate)" where
  "issuerMap_of certBundle = fold (\<lambda>cert m. m(Issuer cert \<mapsto> cert)) certBundle Map.empty"

definition subjectMap_of :: "Certificate list \<Rightarrow> (string \<rightharpoonup> Certificate)" where
  "subjectMap_of certBundle = fold (\<lambda>cert m. m(Subject cert \<mapsto> cert)) certBundle Map.empty"

definition classify ::
  "(string \<rightharpoonup> Certificate) \<Rightarrow> Certificate list \<Rightarrow> Certificate list \<times> Certificate option" where
  "classify issuerMap certBundle =
     fold (\<lambda>cert (intermediateCerts, clientCert).
             if issuerMap (Subject cert) \<noteq> None then (intermediateCerts @ [cert], clientCert)
             else (intermediateCerts, Some cert))
          certBundle ([], None)"

fun validateChain ::
  "env \<Rightarrow> (string \<rightharpoonup> Certificate) \<Rightarrow> Certificate list \<Rightarrow> Certificate option
     \<Rightarrow> Certificate option result" where
  "validateChain E subjectMap [] chainTopCert = Ok chainTopCert"
| "validateChain E subjectMap (cert # rest) chainTopCert =
     (case subjectMap (Issuer cert) of
        Some issuerCert \<Rightarrow>
          (case validateCertificate E cert (PubKey issuerCert) of
             Err e \<Rightarrow> Err BrokenChainError
           | Panic \<Rightarrow> Panic
           | Ok _ \<Rightarrow> validateChain E subjectMap rest chainTopCert)
      | None \<Rightarrow> validateChain E subjectMap rest (Some cert))"

definition ValidateBundle :: "env \<Rightarrow> CertPool \<Rightarrow> Certificate list \<Rightarrow> Certificate result" where
  "ValidateBundle E c certBundle =
     (let issuerMap = issuerMap_of certBundle;
          subjectMap = subjectMap_of certBundle;
          (intermediateCerts, clientCert) = classify issuerMap certBundle
      in case clientCert of
           None \<Rightarrow> Err NoLeafError
         | Some clientCert \<Rightarrow>
             (case subjectMap (Issuer clientCert) of
                Some clientIssuer \<Rightarrow>
                  and_then (validateCertificate E clientCert (PubKey clientIssuer)) (\<lambda>_.
                  and_then (validateChain E subjectMap intermediateCerts None) (\<lambda>chainTopCert.
                  case chainTopCert of
                    None \<Rightarrow> Err NoTrustAnchorError
                  | Some chainTopCert \<Rightarrow>
                      and_then (Validate E c chainTopCert) (\<lambda>_. Ok clientCert)))
              | None \<Rightarrow>
                  (case Validate E c clientCert of
                     Ok _ \<Rightarrow> Ok clientCert
                   | Err e \<Rightarrow> Err (NoIssuerPrefix @ e)
                   | Panic \<Rightarrow> Panic)))"

section \<open>The certificates as objects of a store\<close>

text \<open>
  The source works on \<^verbatim>\<open>*Certificate\<close>: \<^verbatim>\<open>Copy\<close> allocates a new object and
  \<^verbatim>\<open>validateCertificate\<close> assigns to the \<^verbatim>\<open>Signature\<close> field of that object. Here
  the store of certificate objects is explicit: a pointer is nil or the index of a cell,
  an allocation appends a cell, and every call returns the store it leaves behind. The
  fields of a cell stay values: \<^verbatim>\<open>Copy\<close> builds new slices and a new validity, and
  no statement of the source writes into a backing array, a validity or a time.
\<close>

type_synonym heap = "Certificate list"
type_synonym ptr = "nat option"

definition load :: "heap \<Rightarrow> ptr \<Rightarrow> Certificate result" where
  "load h p = (case p of None \<Rightarrow> Panic | Some a \<Rightarrow> if a < length h then Ok (h ! a) else Panic)"

definition bind_st ::
  "(heap \<Rightarrow> heap \<times> 'a result) \<Rightarrow> ('a \<Rightarrow> heap \<Rightarrow> heap \<times> 'b result) \<Rightarrow> heap \<Rightarrow> heap \<times> 'b result" where
  "bind_st m f h =
     (case m h of
        (h', Ok x) \<Rightarrow> f x h'
      | (h', Err e) \<Rightarrow> (h', Err e)
      | (h', Panic) \<Rightarrow> (h', Panic))"

definition lift_st :: "'a result \<Rightarrow> heap \<Rightarrow> heap \<times> 'a result" where
  "lift_st r h = (h, r)"

definition read_st :: "ptr \<Rightarrow> heap \<Rightarrow> heap \<times> Certificate result" where
  "read_st p h = (h, load h p)"

definition alloc_st :: "Certificate \<Rightarrow> heap \<Rightarrow> heap \<times> ptr result" where
  "alloc_st c h = (h @ [c], Ok (Some (length h)))"

definition write_Signature :: "ptr \<Rightarrow> bytes \<Rightarrow> heap \<Rightarrow> heap \<times> unit result" where
  "write_Signature p s h =
     (case p of
        None \<Rightarrow> (h, Panic)
      | Some a \<Rightarrow> if a < length h then (h[a := (h ! a)\<lparr>Signature := s\<rparr>], Ok ()) else (h, Panic))"

definition Copy_heap :: "ptr \<Rightarrow> heap \<Rightarrow> heap \<times> ptr result" where
  "Copy_heap c = bind_st (read_st c) (\<lambda>obj. bind_st (lift_st (Copy obj)) alloc_st)"

definition validateCertificate_heap ::
  "env \<Rightarrow> ptr \<Rightarrow> bytes \<Rightarrow> heap \<Rightarrow> heap \<times> unit result" where
  "validateCertificate_heap E origCert pubKey =
     bind_st (Copy_heap origCert) (\<lambda>cert.
     bind_st (read_st cert) (\<lambda>obj.
     bind_st (lift_st (deref (Validity obj))) (\<lambda>v.
     bind_st (lift_st
       (if \<not> IsZero (NotBefore v) then
          and_then (StdTime (NotBefore v)) (\<lambda>notBefore.
            if time_Before (time_Now E) notBefore then Err NotYetValidError else Ok ())
        else Ok ())) (\<lambda>_.
     bind_st (lift_st
       (if \<not> IsZero (NotAfter v) then
          and_then (StdTime (NotAfter v)) (\<lambda>notAfter.
            if time_After (time_Now E) notAfter then Err ExpiredError else Ok ())
        else Ok ())) (\<lambda>_.
     bind_st (read_st cert) (\<lambda>obj.
     let sig = Signature obj in
     bind_st (write_Signature cert None) (\<lambda>_.
     bind_st (read_st cert) (\<lambda>obj.
     let (certBytes, err) = Bytes E obj
     in lift_st
          (if err \<noteq> None then Err EncodeError
           else
             and_then (ed25519_Verify E pubKey certBytes sig) (\<lambda>verified.
             if \<not> verified then Err BadSignatureError else Ok ()))))))))))"

section \<open>Example values\<close>

text \<open>
  A toy instance of the outside world, for evaluating the operations. The encoding of a
  certificate lists its serial number, the lengths of issuer and subject, the validity,
  the public key, and the numbers of extensions and of signature bytes; a signature is
  valid when it is the signer's key followed by the signed bytes; the clock reads half a
  second past 1700000000 seconds after the Unix epoch.
\<close>

definition elems :: "'a list option \<Rightarrow> 'a list" where
  "elems s = (case s of None \<Rightarrow> [] | Some xs \<Rightarrow> xs)"

definition boundByte :: "Time option \<Rightarrow> byte list" where
  "boundByte t = (case t of None \<Rightarrow> [0] | Some s \<Rightarrow> [1, ucast s])"

definition exampleEncode :: "Certificate \<Rightarrow> bytes \<times> string option" where
  "exampleEncode c =
     (Some ([ucast (SerialNumber c), of_nat (length (Issuer c)), of_nat (length (Subject c))]
            @ (case Validity c of None \<Rightarrow> [0] | Some v \<Rightarrow> boundByte (NotBefore v) @ boundByte (NotAfter v))
            @ elems (PubKey c)
            @ [of_nat (len (Extensions c)), of_nat (len (Signature c))]),
      None)"

definition exampleEnv :: env where
  "exampleEnv =
     \<lparr> codec_Encode = exampleEncode,
       signature_valid = (\<lambda>publicKey message sig. sig = append_slice publicKey message),
       time_Now = \<lparr> secs = 63835596800, nsecs = 500000000 \<rparr> \<rparr>"

definition rootKey :: bytes where
  "rootKey = Some (replicate 32 1)"

definition intermediateKey :: bytes where
  "intermediateKey = Some (replicate 32 2)"

definition leafKey :: bytes where
  "leafKey = Some (replicate 32 3)"

definition rootCert :: Certificate where
  "rootCert =
     \<lparr> SerialNumber = 1, Issuer = ''root'',
       Validity = Some \<lparr> NotBefore = Some 0, NotAfter = Some 0 \<rparr>,
       Subject = ''root'', PubKey = rootKey, Extensions = None,
       Signature = Some (replicate 32 1 @ [1, 4, 4, 1, 0, 1, 0] @ replicate 32 1 @ [0, 0]) \<rparr>"

definition intermediateCert :: Certificate where
  "intermediateCert =
     \<lparr> SerialNumber = 2, Issuer = ''root'',
       Validity = Some \<lparr> NotBefore = Some 1600000000, NotAfter = None \<rparr>,
       Subject = ''intermediate'', PubKey = intermediateKey, Extensions = Some [],
       Signature = Some (replicate 32 1 @ [2, 4, 12, 1, 0, 0] @ replicate 32 2 @ [0, 0]) \<rparr>"

definition leafCert :: Certificate where
  "leafCert =
     \<lparr> SerialNumber = 3, Issuer = ''intermediate'',
       Validity = Some \<lparr> NotBefore = None, NotAfter = Some 1800000000 \<rparr>,
       Subject = ''leaf'', PubKey = leafKey,
       Extensions = Some [\<lparr> OID = 7, Critical = False, Value = Some [0] \<rparr>],
       Signature = Some (replicate 32 2 @ [3, 12, 4, 0, 1, 0] @ replicate 32 3 @ [1, 0]) \<rparr>"

text \<open>
  A leaf issued directly by the root, one not yet valid, one expired, and one whose
  \<^verbatim>\<open>NotBefore\<close> is the largest \<^verbatim>\<open>int64\<close>.
\<close>

definition directCert :: Certificate where
  "directCert =
     leafCert\<lparr>Issuer := ''root'',
       Signature := Some (replicate 32 1 @ [3, 4, 4, 0, 1, 0] @ replicate 32 3 @ [1, 0])\<rparr>"

definition futureCert :: Certificate where
  "futureCert =
     leafCert\<lparr>Validity := Some \<lparr> NotBefore = Some 1750000000, NotAfter = Some 1650000000 \<rparr>\<rparr>"

definition expiredCert :: Certificate where
  "expiredCert =
     leafCert\<lparr>Validity := Some \<lparr> NotBefore = Some 1600000000, NotAfter = Some 1650000000 \<rparr>\<rparr>"

definition farFutureCert :: Certificate where
  "farFutureCert =
     leafCert\<lparr>Validity := Some \<lparr> NotBefore = Some 9223372036854775807, NotAfter = None \<rparr>,
       Signature := Some (replicate 32 2 @ [3, 12, 4, 1, 255, 0] @ replicate 32 3 @ [1, 0])\<rparr>"

definition examplePool :: CertPool where
  "examplePool = NewCertPool [rootCert]"

section \<open>Single-certificate validation\<close>

lemmas error_defs =
  NotYetValidError_def ExpiredError_def EncodeError_def BadSignatureError_def
  UnknownIssuerError_def RootInvalidPrefix_def NoLeafError_def NoIssuerPrefix_def
  BrokenChainError_def NoTrustAnchorError_def

lemmas example_defs =
  exampleEnv_def exampleEncode_def boundByte_def elems_def len_def
  rootKey_def intermediateKey_def leafKey_def
  rootCert_def intermediateCert_def leafCert_def directCert_def
  futureCert_def expiredCert_def farFutureCert_def

lemmas eval_defs =
  validateCertificate_def Copy_def and_then_def deref_def StdTime_def IsZero_def
  time_Before_def time_After_def time_Unix_def unixToInternal_def Bytes_def Serialize_def
  append_slice_def ed25519_Verify_def PublicKeySize_def

lemma IsZero_iff: "IsZero t \<longleftrightarrow> t = None \<or> t = Some 0"
  by (auto simp: IsZero_def signed_eq_0_iff split: option.splits)

lemma Copy_Some:
  "Validity c = Some v \<Longrightarrow>
     Copy c = Ok (c\<lparr>PubKey := append_slice (Some []) (PubKey c),
                    Extensions := append_slice (Some []) (Extensions c),
                    Signature := append_slice (Some []) (Signature c)\<rparr>)"
  by (cases c; cases v) (simp add: Copy_def Let_def)

lemma Copy_None: "Validity c = None \<Longrightarrow> Copy c = Panic"
  by (simp add: Copy_def)

lemma validateCertificate_cases:
  assumes "Validity c = Some v"
  shows "validateCertificate E c pk =
     (if \<not> IsZero (NotBefore v) \<and> time_Before (time_Now E) (time_Unix (the (NotBefore v)))
      then Err NotYetValidError
      else if \<not> IsZero (NotAfter v) \<and> time_After (time_Now E) (time_Unix (the (NotAfter v)))
      then Err ExpiredError
      else case Bytes E (c\<lparr>PubKey := append_slice (Some []) (PubKey c),
                    Extensions := append_slice (Some []) (Extensions c),
                    Signature := None\<rparr>) of
          (certBytes, err) \<Rightarrow>
             if err \<noteq> None then Err EncodeError
             else if len pk \<noteq> PublicKeySize then Panic
             else if signature_valid E pk certBytes (append_slice (Some []) (Signature c))
             then Ok () else Err BadSignatureError)"
  using assms
  by (auto simp: validateCertificate_def Copy_Some[OF assms] and_then_def deref_def StdTime_def
      IsZero_def ed25519_Verify_def Let_def split: option.splits prod.splits)

lemma validateCertificate_NotYetValid_iff:
  assumes "Validity c = Some v"
  shows "validateCertificate E c pk = Err NotYetValidError \<longleftrightarrow>
            (\<exists>nb. NotBefore v = Some nb \<and> nb \<noteq> 0 \<and> time_Before (time_Now E) (time_Unix nb))"
  by (auto simp: validateCertificate_cases[OF assms] IsZero_iff error_defs split: prod.splits)

lemma validateCertificate_Expired_iff:
  assumes "Validity c = Some v"
  shows "validateCertificate E c pk = Err ExpiredError \<longleftrightarrow>
            \<not> (\<exists>nb. NotBefore v = Some nb \<and> nb \<noteq> 0 \<and> time_Before (time_Now E) (time_Unix nb))
            \<and> (\<exists>na. NotAfter v = Some na \<and> na \<noteq> 0 \<and> time_After (time_Now E) (time_Unix na))"
  by (auto simp: validateCertificate_cases[OF assms] IsZero_iff error_defs split: prod.splits)

lemma validateCertificate_Panic_key:
  assumes "Validity c = Some v" "validateCertificate E c pk = Panic"
  shows "len pk \<noteq> PublicKeySize"
  using assms(2)
  by (auto simp: validateCertificate_cases[OF assms(1)] split: prod.splits if_splits)

lemma validateCertificate_Panic:
  assumes "Validity c = None"
  shows "validateCertificate E c pk = Panic"
  by (simp add: validateCertificate_def Copy_None[OF assms] and_then_def)








text \<open>
  C6. A certificate with no validity makes \<^verbatim>\<open>Copy\<close>, and with it the validation,
  panic: no time check and no signature check is reached.
\<close>

theorem absent_validity_panics:
  "Copy (c\<lparr>Validity := None\<rparr>) = Panic \<and> validateCertificate E (c\<lparr>Validity := None\<rparr>) pk = Panic"
  by (simp add: validateCertificate_Panic Copy_None)

lemma zero_bounds_reach_signature_check:
  assumes "Validity c = Some v" "IsZero (NotBefore v)" "IsZero (NotAfter v)"
  shows "validateCertificate E c pk =
           (case Bytes E (c\<lparr>PubKey := append_slice (Some []) (PubKey c),
                    Extensions := append_slice (Some []) (Extensions c),
                    Signature := None\<rparr>) of
              (certBytes, err) \<Rightarrow>
                if err \<noteq> None then Err EncodeError
                else if len pk \<noteq> PublicKeySize then Panic
                else if signature_valid E pk certBytes (append_slice (Some []) (Signature c))
                then Ok () else Err BadSignatureError)"
  using assms(2,3) by (simp add: validateCertificate_cases[OF assms(1)])

text \<open>
  C10. \<open>IsZero\<close> holds exactly of the nil pointer and of a pointer to 0. For a validity
  whose \<open>NotBefore\<close> is nil, as for one where it points to 0, validation never returns
  the not-yet-valid error, whatever the clock reads; it returns the expired error exactly
  when the \<open>NotAfter\<close> check alone fails; and it panics only in the signature check, on
  a key that is not 32 bytes long, so the nil bound is not dereferenced. The certificate
  with the nil bound set to 0 gets the same two time errors, from one and the same
  outside world. The same holds for \<open>NotAfter\<close>.
\<close>

theorem nil_bound_is_zero_bound:
  assumes "Validity c = Some v"
  shows "(IsZero t \<longleftrightarrow> t = None \<or> t = Some 0)
       \<and> (NotBefore v = None \<or> NotBefore v = Some 0 \<longrightarrow>
            validateCertificate E c pk \<noteq> Err NotYetValidError
          \<and> (validateCertificate E c pk = Err ExpiredError \<longleftrightarrow>
                (\<exists>na. NotAfter v = Some na \<and> na \<noteq> 0 \<and> time_After (time_Now E) (time_Unix na)))
          \<and> (validateCertificate E c pk = Panic \<longrightarrow> len pk \<noteq> PublicKeySize))
       \<and> (NotAfter v = None \<or> NotAfter v = Some 0 \<longrightarrow>
            validateCertificate E c pk \<noteq> Err ExpiredError
          \<and> (validateCertificate E c pk = Err NotYetValidError \<longleftrightarrow>
                (\<exists>nb. NotBefore v = Some nb \<and> nb \<noteq> 0 \<and> time_Before (time_Now E) (time_Unix nb)))
          \<and> (validateCertificate E c pk = Panic \<longrightarrow> len pk \<noteq> PublicKeySize))
       \<and> (NotBefore v = None \<longrightarrow>
            (validateCertificate E c pk = Err NotYetValidError \<longleftrightarrow>
               validateCertificate E (c\<lparr>Validity := Some (v\<lparr>NotBefore := Some 0\<rparr>)\<rparr>) pk
                 = Err NotYetValidError)
          \<and> (validateCertificate E c pk = Err ExpiredError \<longleftrightarrow>
               validateCertificate E (c\<lparr>Validity := Some (v\<lparr>NotBefore := Some 0\<rparr>)\<rparr>) pk
                 = Err ExpiredError))
       \<and> (NotAfter v = None \<longrightarrow>
            (validateCertificate E c pk = Err NotYetValidError \<longleftrightarrow>
               validateCertificate E (c\<lparr>Validity := Some (v\<lparr>NotAfter := Some 0\<rparr>)\<rparr>) pk
                 = Err NotYetValidError)
          \<and> (validateCertificate E c pk = Err ExpiredError \<longleftrightarrow>
               validateCertificate E (c\<lparr>Validity := Some (v\<lparr>NotAfter := Some 0\<rparr>)\<rparr>) pk
                 = Err ExpiredError))"
proof -
  let ?cb = "c\<lparr>Validity := Some (v\<lparr>NotBefore := Some 0\<rparr>)\<rparr>"
  let ?ca = "c\<lparr>Validity := Some (v\<lparr>NotAfter := Some 0\<rparr>)\<rparr>"
  have vb: "Validity ?cb = Some (v\<lparr>NotBefore := Some 0\<rparr>)"
    and va: "Validity ?ca = Some (v\<lparr>NotAfter := Some 0\<rparr>)"
    by simp_all
  note n = validateCertificate_NotYetValid_iff[OF assms, of E pk]
  note e = validateCertificate_Expired_iff[OF assms, of E pk]
  note nb0 = validateCertificate_NotYetValid_iff[OF vb, of E pk]
  note eb0 = validateCertificate_Expired_iff[OF vb, of E pk]
  note na0 = validateCertificate_NotYetValid_iff[OF va, of E pk]
  note ea0 = validateCertificate_Expired_iff[OF va, of E pk]
  have p: "validateCertificate E c pk = Panic \<longrightarrow> len pk \<noteq> PublicKeySize"
    using validateCertificate_Panic_key[OF assms] by blast
  have 1: "IsZero t \<longleftrightarrow> t = None \<or> t = Some 0"
    by (rule IsZero_iff)
  have 2: "NotBefore v = None \<or> NotBefore v = Some 0 \<longrightarrow>
            validateCertificate E c pk \<noteq> Err NotYetValidError
          \<and> (validateCertificate E c pk = Err ExpiredError \<longleftrightarrow>
                (\<exists>na. NotAfter v = Some na \<and> na \<noteq> 0 \<and> time_After (time_Now E) (time_Unix na)))
          \<and> (validateCertificate E c pk = Panic \<longrightarrow> len pk \<noteq> PublicKeySize)"
    using n e p by auto
  have 3: "NotAfter v = None \<or> NotAfter v = Some 0 \<longrightarrow>
            validateCertificate E c pk \<noteq> Err ExpiredError
          \<and> (validateCertificate E c pk = Err NotYetValidError \<longleftrightarrow>
                (\<exists>nb. NotBefore v = Some nb \<and> nb \<noteq> 0 \<and> time_Before (time_Now E) (time_Unix nb)))
          \<and> (validateCertificate E c pk = Panic \<longrightarrow> len pk \<noteq> PublicKeySize)"
    using n e p by auto
  have 4: "NotBefore v = None \<longrightarrow>
            (validateCertificate E c pk = Err NotYetValidError \<longleftrightarrow>
               validateCertificate E ?cb pk = Err NotYetValidError)
          \<and> (validateCertificate E c pk = Err ExpiredError \<longleftrightarrow>
               validateCertificate E ?cb pk = Err ExpiredError)"
    unfolding n e nb0 eb0 by simp
  have 5: "NotAfter v = None \<longrightarrow>
            (validateCertificate E c pk = Err NotYetValidError \<longleftrightarrow>
               validateCertificate E ?ca pk = Err NotYetValidError)
          \<and> (validateCertificate E c pk = Err ExpiredError \<longleftrightarrow>
               validateCertificate E ?ca pk = Err ExpiredError)"
    unfolding n e na0 ea0 by simp
  from 1 2 3 4 5 show ?thesis
    by (intro conjI)
qed

theorem nil_bound_is_zero_bound_witness:
  "IsZero None
   \<and> validateCertificate exampleEnv leafCert intermediateKey = Ok ()
   \<and> validateCertificate exampleEnv
        (leafCert\<lparr>Validity := Some \<lparr> NotBefore = Some 0, NotAfter = Some 1800000000 \<rparr>\<rparr>)
        intermediateKey \<noteq> Err NotYetValidError
   \<and> validateCertificate exampleEnv intermediateCert rootKey = Ok ()
   \<and> validateCertificate exampleEnv
        (intermediateCert\<lparr>Validity := Some \<lparr> NotBefore = Some 1600000000, NotAfter = Some 0 \<rparr>\<rparr>)
        rootKey \<noteq> Err ExpiredError"
proof -
  have l: "Validity leafCert = Some \<lparr> NotBefore = None, NotAfter = Some 1800000000 \<rparr>"
    by (simp add: example_defs)
  have i: "Validity intermediateCert = Some \<lparr> NotBefore = Some 1600000000, NotAfter = None \<rparr>"
    by (simp add: example_defs)
  have lv: "validateCertificate exampleEnv leafCert intermediateKey = Ok ()"
    by (simp add: eval_defs example_defs)
  have iv: "validateCertificate exampleEnv intermediateCert rootKey = Ok ()"
    by (simp add: eval_defs example_defs)
  show ?thesis
    using nil_bound_is_zero_bound [OF l, of None exampleEnv intermediateKey]
      nil_bound_is_zero_bound [OF i, of None exampleEnv rootKey] lv iv
    by simp
qed

text \<open>
  C1. When the validity is present and neither time check fails, validation copies the
  certificate (with new slices for key, extensions and signature), encodes the copy with
  its signature set to nil, and, unless the encoder reports an error, gives the bytes, the
  key and the copy's signature (the bytes of the original one) to \<^verbatim>\<open>ed25519.Verify\<close>:
  it returns no error when the signature is reported valid and the bad-signature error
  exactly when it is reported not valid.
\<close>

theorem signature_over_cleared_copy:
  assumes "Validity c = Some v"
    and "\<forall>t. NotBefore v = Some t \<and> t \<noteq> 0 \<longrightarrow> \<not> time_Before (time_Now E) (time_Unix t)"
    and "\<forall>t. NotAfter v = Some t \<and> t \<noteq> 0 \<longrightarrow> \<not> time_After (time_Now E) (time_Unix t)"
    and "Bytes E (c\<lparr>PubKey := append_slice (Some []) (PubKey c),
                    Extensions := append_slice (Some []) (Extensions c),
                    Signature := None\<rparr>) = (certBytes, err)"
  shows "Copy c = Ok (c\<lparr>PubKey := append_slice (Some []) (PubKey c),
                        Extensions := append_slice (Some []) (Extensions c),
                        Signature := append_slice (Some []) (Signature c)\<rparr>)
       \<and> validateCertificate E c pk =
           (if err \<noteq> None then Err EncodeError
            else case ed25519_Verify E pk certBytes (append_slice (Some []) (Signature c)) of
                   Ok verified \<Rightarrow> if verified then Ok () else Err BadSignatureError
                 | Err e \<Rightarrow> Err e
                 | Panic \<Rightarrow> Panic)
       \<and> (err = None \<longrightarrow>
            (validateCertificate E c pk = Err BadSignatureError \<longleftrightarrow>
               ed25519_Verify E pk certBytes (append_slice (Some []) (Signature c)) = Ok False))"
proof -
  have nb: "\<not> (\<not> IsZero (NotBefore v) \<and> time_Before (time_Now E) (time_Unix (the (NotBefore v))))"
    using assms(2) by (auto simp: IsZero_iff)
  have na: "\<not> (\<not> IsZero (NotAfter v) \<and> time_After (time_Now E) (time_Unix (the (NotAfter v))))"
    using assms(3) by (auto simp: IsZero_iff)
  have r: "validateCertificate E c pk =
           (if err \<noteq> None then Err EncodeError
            else case ed25519_Verify E pk certBytes (append_slice (Some []) (Signature c)) of
                   Ok verified \<Rightarrow> if verified then Ok () else Err BadSignatureError
                 | Err e \<Rightarrow> Err e
                 | Panic \<Rightarrow> Panic)"
    unfolding validateCertificate_cases[OF assms(1)]
    using nb na assms(4) by (auto simp: ed25519_Verify_def)
  have "err = None \<longrightarrow>
            (validateCertificate E c pk = Err BadSignatureError \<longleftrightarrow>
               ed25519_Verify E pk certBytes (append_slice (Some []) (Signature c)) = Ok False)"
    unfolding r by (auto simp: error_defs ed25519_Verify_def split: result.splits)
  with r Copy_Some[OF assms(1)] show ?thesis
    by (intro conjI)
qed

theorem signature_over_cleared_copy_witness:
  "validateCertificate exampleEnv leafCert intermediateKey = Ok ()
   \<and> validateCertificate exampleEnv leafCert rootKey = Err BadSignatureError
   \<and> validateCertificate exampleEnv (leafCert\<lparr>SerialNumber := 4\<rparr>) intermediateKey
       = Err BadSignatureError"
proof -
  have l: "Validity leafCert = Some \<lparr> NotBefore = None, NotAfter = Some 1800000000 \<rparr>"
    "Validity (leafCert\<lparr>SerialNumber := 4\<rparr>)
       = Some \<lparr> NotBefore = None, NotAfter = Some 1800000000 \<rparr>"
    by (simp_all add: example_defs)
  have nb: "\<forall>t. NotBefore \<lparr> NotBefore = None, NotAfter = Some 1800000000 \<rparr> = Some t \<and> t \<noteq> 0
              \<longrightarrow> \<not> time_Before (time_Now exampleEnv) (time_Unix t)"
    by simp
  have na: "\<forall>t. NotAfter \<lparr> NotBefore = None, NotAfter = Some 1800000000 \<rparr> = Some t \<and> t \<noteq> 0
              \<longrightarrow> \<not> time_After (time_Now exampleEnv) (time_Unix t)"
    by (simp add: time_After_def time_Unix_def unixToInternal_def exampleEnv_def)
  have b: "Bytes exampleEnv (leafCert\<lparr>PubKey := append_slice (Some []) (PubKey leafCert),
                    Extensions := append_slice (Some []) (Extensions leafCert),
                    Signature := None\<rparr>)
             = (Some ([3, 12, 4, 0, 1, 0] @ replicate 32 3 @ [1, 0]), None)"
    by (simp add: Bytes_def Serialize_def append_slice_def example_defs)
  have b': "Bytes exampleEnv ((leafCert\<lparr>SerialNumber := 4\<rparr>)
                   \<lparr>PubKey := append_slice (Some []) (PubKey (leafCert\<lparr>SerialNumber := 4\<rparr>)),
                    Extensions := append_slice (Some []) (Extensions (leafCert\<lparr>SerialNumber := 4\<rparr>)),
                    Signature := None\<rparr>)
             = (Some ([4, 12, 4, 0, 1, 0] @ replicate 32 3 @ [1, 0]), None)"
    by (simp add: Bytes_def Serialize_def append_slice_def example_defs)
  have "validateCertificate exampleEnv leafCert intermediateKey = Ok ()"
    using signature_over_cleared_copy [OF l(1) nb na b, of intermediateKey]
    by (simp add: ed25519_Verify_def PublicKeySize_def append_slice_def example_defs)
  moreover have "validateCertificate exampleEnv leafCert rootKey = Err BadSignatureError"
    using signature_over_cleared_copy [OF l(1) nb na b, of rootKey]
    by (simp add: ed25519_Verify_def PublicKeySize_def append_slice_def example_defs)
  moreover have "validateCertificate exampleEnv (leafCert\<lparr>SerialNumber := 4\<rparr>) intermediateKey
       = Err BadSignatureError"
    using signature_over_cleared_copy [OF l(2) nb na b', of intermediateKey]
    by (simp add: ed25519_Verify_def PublicKeySize_def append_slice_def example_defs)
  ultimately show ?thesis by simp
qed

section \<open>The store\<close>

lemma Copy_heap_Ok:
  assumes "load h p = Ok c" "Copy c = Ok c2"
  shows "Copy_heap p h = (h @ [c2], Ok (Some (length h)))"
  using assms by (simp add: Copy_heap_def bind_st_def read_st_def lift_st_def alloc_st_def)

lemma Copy_heap_Panic:
  assumes "load h p = Ok c" "Copy c = Panic"
  shows "Copy_heap p h = (h, Panic)"
  using assms by (simp add: Copy_heap_def bind_st_def read_st_def lift_st_def alloc_st_def)

lemma Copy_heap_nil:
  assumes "load h p = Panic"
  shows "Copy_heap p h = (h, Panic)"
  using assms by (simp add: Copy_heap_def bind_st_def read_st_def lift_st_def alloc_st_def)

lemma validateCertificate_heap_Some:
  assumes "load h p = Ok c" "Validity c = Some v"
  shows "\<exists>c'. validateCertificate_heap E p pk h = (h @ [c'], validateCertificate E c pk)"
proof -
  let ?copy = "c\<lparr>PubKey := append_slice (Some []) (PubKey c),
                    Extensions := append_slice (Some []) (Extensions c),
                    Signature := append_slice (Some []) (Signature c)\<rparr>"
  have ch: "Copy_heap p h = (h @ [?copy], Ok (Some (length h)))"
    by (rule Copy_heap_Ok[OF assms(1) Copy_Some[OF assms(2)]])
  show ?thesis
    unfolding validateCertificate_heap_def validateCertificate_def
    by (auto simp: ch Copy_Some[OF assms(2)] bind_st_def read_st_def lift_st_def load_def
        write_Signature_def and_then_def deref_def Let_def
        split: result.splits prod.splits)
qed

lemma validateCertificate_heap_None:
  assumes "load h p = Ok c" "Validity c = None"
  shows "validateCertificate_heap E p pk h = (h, validateCertificate E c pk)"
  by (simp add: validateCertificate_heap_def bind_st_def
      Copy_heap_Panic[OF assms(1) Copy_None[OF assms(2)]] validateCertificate_Panic[OF assms(2)])

text \<open>
  C9. A call of \<^verbatim>\<open>validateCertificate\<close> on a pointer to a certificate leaves every
  cell that the store had before the call as it was, the caller's certificate among them:
  the store only grows by the copy, whose signature field is the one cleared. What the call
  returns is the value of the function \<open>validateCertificate\<close> at the certificate's
  fields, the key, and the outside world with its fixed clock value.
\<close>

theorem caller_certificate_unchanged:
  assumes "load h origCert = Ok c"
  shows "take (length h) (fst (validateCertificate_heap E origCert pubKey h)) = h
       \<and> load (fst (validateCertificate_heap E origCert pubKey h)) origCert = Ok c
       \<and> snd (validateCertificate_heap E origCert pubKey h) = validateCertificate E c pubKey"
proof (cases "Validity c")
  case None
  then show ?thesis
    using assms by (simp add: validateCertificate_heap_None[OF assms None])
next
  case (Some v)
  obtain c' where "validateCertificate_heap E origCert pubKey h =
      (h @ [c'], validateCertificate E c pubKey)"
    using validateCertificate_heap_Some[OF assms Some] by blast
  then show ?thesis
    using assms by (auto simp: load_def nth_append split: option.splits if_splits)
qed

theorem caller_certificate_unchanged_witness:
  "load [rootCert, leafCert] (Some 1) = Ok leafCert
   \<and> take 2 (fst (validateCertificate_heap exampleEnv (Some 1) intermediateKey [rootCert, leafCert]))
       = [rootCert, leafCert]
   \<and> snd (validateCertificate_heap exampleEnv (Some 1) intermediateKey [rootCert, leafCert]) = Ok ()"
proof -
  have h: "load [rootCert, leafCert] (Some 1) = Ok leafCert"
    by (simp add: load_def)
  have lv: "validateCertificate exampleEnv leafCert intermediateKey = Ok ()"
    by (simp add: eval_defs example_defs)
  show ?thesis
    using caller_certificate_unchanged [OF h, of exampleEnv intermediateKey] h lv
    by (simp add: numeral_2_eq_2)
qed

lemma nil_pointer_panics:
  "validateCertificate_heap E None pubKey h = (h, Panic)"
  by (simp add: validateCertificate_heap_def bind_st_def Copy_heap_nil load_def)

section \<open>The trust pool\<close>

lemma validateCertificate_range:
  "validateCertificate E c pk \<in>
     {Ok (), Panic, Err NotYetValidError, Err ExpiredError, Err EncodeError, Err BadSignatureError}"
proof (cases "Validity c")
  case None
  then show ?thesis by (simp add: validateCertificate_Panic)
next
  case (Some v)
  show ?thesis
    by (auto simp: validateCertificate_cases[OF Some] Copy_Some[OF Some] split: prod.splits)
qed

lemma validateCertificate_not_UnknownIssuer:
  "validateCertificate E c pk \<noteq> Err UnknownIssuerError"
  using validateCertificate_range[of E c pk] by (auto simp: error_defs)

lemma Validate_absent:
  "c (Issuer cert) = None \<or> c (Issuer cert) = Some None \<Longrightarrow>
     Validate E c cert = Err UnknownIssuerError"
  by (auto simp: Validate_def lookup_ptr_def)

lemma Validate_present:
  "c (Issuer cert) = Some (Some issuerCert) \<Longrightarrow>
     Validate E c cert =
       (case validateCertificate E issuerCert (PubKey issuerCert) of
          Err e \<Rightarrow> Err (RootInvalidPrefix @ e)
        | Panic \<Rightarrow> Panic
        | Ok _ \<Rightarrow> validateCertificate E cert (PubKey issuerCert))"
  by (simp add: Validate_def lookup_ptr_def and_then_def deref_def)

text \<open>
  C4. \<^verbatim>\<open>Validate\<close> returns the unknown-issuer error exactly when the issuer of the
  certificate is no key of the pool or is bound to a nil certificate. When it is bound to a
  certificate, that certificate is validated against its own public key first: an error
  there is returned (with a prefix), so a trust anchor that does not validate makes the
  call fail, and only after it validated is the certificate validated against the
  issuer's public key.
\<close>

theorem pool_validate_issuer:
  "(Validate E c cert = Err UnknownIssuerError
      \<longleftrightarrow> c (Issuer cert) = None \<or> c (Issuer cert) = Some None)
   \<and> (c (Issuer cert) = Some (Some issuerCert) \<longrightarrow>
        Validate E c cert =
          (case validateCertificate E issuerCert (PubKey issuerCert) of
             Err e \<Rightarrow> Err (RootInvalidPrefix @ e)
           | Panic \<Rightarrow> Panic
           | Ok _ \<Rightarrow> validateCertificate E cert (PubKey issuerCert))
      \<and> (validateCertificate E issuerCert (PubKey issuerCert) \<noteq> Ok ()
            \<longrightarrow> Validate E c cert \<noteq> Ok ()))"
proof -
  have a: "Validate E c cert \<noteq> Err UnknownIssuerError" if "c (Issuer cert) = Some (Some r)" for r
    using validateCertificate_not_UnknownIssuer[of E cert "PubKey r"]
    by (auto simp: Validate_present[where c=c and cert=cert, OF that] error_defs
        split: result.splits)
  have b: "Validate E c cert \<noteq> Ok ()"
    if "c (Issuer cert) = Some (Some r)" "validateCertificate E r (PubKey r) \<noteq> Ok ()" for r
    using that(2)
    by (auto simp: Validate_present[where c=c and cert=cert, OF that(1)] split: result.splits)
  have "Validate E c cert = Err UnknownIssuerError
      \<longleftrightarrow> c (Issuer cert) = None \<or> c (Issuer cert) = Some None"
  proof (cases "c (Issuer cert)")
    case None
    then show ?thesis by (simp add: Validate_absent)
  next
    case (Some p)
    then show ?thesis using a by (cases p) (simp_all add: Validate_absent)
  qed
  then show ?thesis
    using b Validate_present by blast
qed

theorem pool_validate_issuer_witness:
  "examplePool (Issuer directCert) = Some (Some rootCert)
   \<and> Validate exampleEnv examplePool directCert = Ok ()
   \<and> Validate exampleEnv examplePool leafCert = Err UnknownIssuerError
   \<and> Validate exampleEnv [''root'' \<mapsto> Some (rootCert\<lparr>Signature := Some [0]\<rparr>)] directCert \<noteq> Ok ()"
proof -
  have p: "examplePool (Issuer directCert) = Some (Some rootCert)"
    by (simp add: examplePool_def NewCertPool_def example_defs)
  have q: "examplePool (Issuer leafCert) = None"
    by (simp add: examplePool_def NewCertPool_def example_defs)
  have r: "validateCertificate exampleEnv rootCert (PubKey rootCert) = Ok ()"
    by (simp add: eval_defs example_defs)
  have d: "validateCertificate exampleEnv directCert (PubKey rootCert) = Ok ()"
    by (simp add: eval_defs example_defs)
  let ?bad = "rootCert\<lparr>Signature := Some [0]\<rparr>"
  have p': "[''root'' \<mapsto> Some ?bad] (Issuer directCert) = Some (Some ?bad)"
    by (simp add: example_defs)
  have r': "validateCertificate exampleEnv ?bad (PubKey ?bad) \<noteq> Ok ()"
    by (simp add: eval_defs example_defs)
  have "Validate exampleEnv examplePool directCert = Ok ()"
    using pool_validate_issuer [of exampleEnv examplePool directCert rootCert] p r d
    by simp
  moreover have "Validate exampleEnv examplePool leafCert = Err UnknownIssuerError"
    using pool_validate_issuer [of exampleEnv examplePool leafCert rootCert] q
    by simp
  moreover have "Validate exampleEnv [''root'' \<mapsto> Some ?bad] directCert \<noteq> Ok ()"
    using pool_validate_issuer [of exampleEnv "[''root'' \<mapsto> Some ?bad]" directCert ?bad] p' r'
    by blast
  ultimately show ?thesis
    using p by simp
qed

text \<open>
  C4, as stated with "exactly when the issuer is no key of the pool": a pool that binds the
  issuer to a nil certificate gives the unknown-issuer error although the issuer is a key.
\<close>

theorem nil_pool_entry_counterexample:
  "\<not> (Validate exampleEnv [''root'' \<mapsto> None] directCert = Err UnknownIssuerError
        \<longleftrightarrow> Issuer directCert \<notin> dom [''root'' \<mapsto> (None :: Certificate option)])"
  by (simp add: Validate_def lookup_ptr_def example_defs)

section \<open>Bundles\<close>

lemma dom_fold_Issuer:
  "dom (fold (\<lambda>cert m. m(Issuer cert \<mapsto> cert)) b m) = dom m \<union> Issuer ` set b"
  by (induction b arbitrary: m) auto

lemma dom_fold_Subject:
  "dom (fold (\<lambda>cert m. m(Subject cert \<mapsto> cert)) b m) = dom m \<union> Subject ` set b"
  by (induction b arbitrary: m) auto

lemma issuerMap_of_None_iff: "issuerMap_of b k = None \<longleftrightarrow> k \<notin> Issuer ` set b"
proof -
  have "dom (issuerMap_of b) = Issuer ` set b"
    using dom_fold_Issuer[of b Map.empty] by (simp add: issuerMap_of_def)
  moreover have "issuerMap_of b k = None \<longleftrightarrow> k \<notin> dom (issuerMap_of b)"
    by (simp add: domIff)
  ultimately show ?thesis by simp
qed

lemma subjectMap_of_None_iff: "subjectMap_of b k = None \<longleftrightarrow> k \<notin> Subject ` set b"
proof -
  have "dom (subjectMap_of b) = Subject ` set b"
    using dom_fold_Subject[of b Map.empty] by (simp add: subjectMap_of_def)
  moreover have "subjectMap_of b k = None \<longleftrightarrow> k \<notin> dom (subjectMap_of b)"
    by (simp add: domIff)
  ultimately show ?thesis by simp
qed

lemma classify_fold:
  "fold (\<lambda>cert (intermediateCerts, clientCert).
             if issuerMap (Subject cert) \<noteq> None then (intermediateCerts @ [cert], clientCert)
             else (intermediateCerts, Some cert)) b (ints, cl)
   = (ints @ filter (\<lambda>c. issuerMap (Subject c) \<noteq> None) b,
      if filter (\<lambda>c. issuerMap (Subject c) = None) b = [] then cl
      else Some (last (filter (\<lambda>c. issuerMap (Subject c) = None) b)))"
  by (induction b arbitrary: ints cl) auto

lemma classify_eq:
  "classify (issuerMap_of b) b =
     (filter (\<lambda>c. Subject c \<in> Issuer ` set b) b,
      if filter (\<lambda>c. Subject c \<notin> Issuer ` set b) b = [] then None
      else Some (last (filter (\<lambda>c. Subject c \<notin> Issuer ` set b) b)))"
  unfolding classify_def classify_fold by (simp add: issuerMap_of_None_iff)

lemma ValidateBundle_no_leaf:
  assumes "snd (classify (issuerMap_of b) b) = None"
  shows "ValidateBundle E c b = Err NoLeafError"
  using assms by (cases "classify (issuerMap_of b) b") (simp add: ValidateBundle_def Let_def)

lemma ValidateBundle_leaf:
  assumes "classify (issuerMap_of b) b = (ints, Some L)"
  shows "ValidateBundle E c b =
     (case subjectMap_of b (Issuer L) of
        Some clientIssuer \<Rightarrow>
          and_then (validateCertificate E L (PubKey clientIssuer)) (\<lambda>_.
          and_then (validateChain E (subjectMap_of b) ints None) (\<lambda>chainTopCert.
          case chainTopCert of
            None \<Rightarrow> Err NoTrustAnchorError
          | Some chainTopCert \<Rightarrow> and_then (Validate E c chainTopCert) (\<lambda>_. Ok L)))
      | None \<Rightarrow>
          (case Validate E c L of
             Ok _ \<Rightarrow> Ok L
           | Err e \<Rightarrow> Err (NoIssuerPrefix @ e)
           | Panic \<Rightarrow> Panic))"
  using assms by (simp add: ValidateBundle_def Let_def)

lemma validateCertificate_not_NoLeaf: "validateCertificate E c pk \<noteq> Err NoLeafError"
  using validateCertificate_range[of E c pk] by (auto simp: error_defs)

lemma Validate_not_NoLeaf: "Validate E c cert \<noteq> Err NoLeafError"
proof (cases "c (Issuer cert)")
  case None
  then show ?thesis by (simp add: Validate_absent error_defs)
next
  case (Some p)
  show ?thesis
  proof (cases p)
    case None
    with Some show ?thesis by (simp add: Validate_absent error_defs)
  next
    case (Some r)
    with \<open>c (Issuer cert) = Some p\<close> have "c (Issuer cert) = Some (Some r)" by simp
    from Validate_present[where c=c and cert=cert, OF this] show ?thesis
      using validateCertificate_not_NoLeaf[of E cert "PubKey r"]
      by (auto simp: error_defs split: result.splits)
  qed
qed

lemma validateChain_not_NoLeaf: "validateChain E sm ints chainTop \<noteq> Err NoLeafError"
  by (induction ints arbitrary: chainTop)
     (auto simp: error_defs split: option.splits result.splits)

lemma ValidateBundle_leaf_not_NoLeaf:
  assumes "classify (issuerMap_of b) b = (ints, Some L)"
  shows "ValidateBundle E c b \<noteq> Err NoLeafError"
  unfolding ValidateBundle_leaf[OF assms]
  using validateCertificate_not_NoLeaf Validate_not_NoLeaf validateChain_not_NoLeaf
  by (auto simp: and_then_def error_defs split: option.splits result.splits)

text \<open>
  C8. The intermediates of a bundle are its certificates whose subject is the issuer of
  some certificate of the bundle, in order; the others are the candidate leaves, and the
  last of them is the client certificate. \<^verbatim>\<open>ValidateBundle\<close> returns the no-leaf error
  exactly when there is no candidate leaf, for every pool, encoder, signature check and
  clock: no certificate is validated before.
\<close>

theorem bundle_classification:
  "classify (issuerMap_of b) b =
     (filter (\<lambda>c. Subject c \<in> Issuer ` set b) b,
      if filter (\<lambda>c. Subject c \<notin> Issuer ` set b) b = [] then None
      else Some (last (filter (\<lambda>c. Subject c \<notin> Issuer ` set b) b)))
   \<and> (ValidateBundle E c b = Err NoLeafError \<longleftrightarrow> (\<forall>cert \<in> set b. Subject cert \<in> Issuer ` set b))"
proof -
  have "ValidateBundle E c b = Err NoLeafError \<longleftrightarrow> (\<forall>cert \<in> set b. Subject cert \<in> Issuer ` set b)"
  proof (cases "snd (classify (issuerMap_of b) b)")
    case None
    then have "filter (\<lambda>c. Subject c \<notin> Issuer ` set b) b = []"
      by (simp add: classify_eq split: if_splits)
    then have "\<forall>cert \<in> set b. Subject cert \<in> Issuer ` set b"
      by (simp add: filter_empty_conv)
    then show ?thesis
      using ValidateBundle_no_leaf[OF None] by simp
  next
    case (Some L)
    then have "classify (issuerMap_of b) b = (fst (classify (issuerMap_of b) b), Some L)"
      by (metis prod.collapse)
    then have n: "ValidateBundle E c b \<noteq> Err NoLeafError"
      by (rule ValidateBundle_leaf_not_NoLeaf)
    from Some have "filter (\<lambda>c. Subject c \<notin> Issuer ` set b) b \<noteq> []"
      by (simp add: classify_eq split: if_splits)
    then have "\<not> (\<forall>cert \<in> set b. Subject cert \<in> Issuer ` set b)"
      by (simp add: filter_empty_conv)
    with n show ?thesis by simp
  qed
  then show ?thesis
    using classify_eq[of b] by simp
qed

lemma example_names:
  "Subject rootCert = ''root''" "Issuer rootCert = ''root''"
  "Subject intermediateCert = ''intermediate''" "Issuer intermediateCert = ''root''"
  "Subject leafCert = ''leaf''" "Issuer leafCert = ''intermediate''"
  "Subject directCert = ''leaf''" "Issuer directCert = ''root''"
  by (simp_all add: example_defs)

theorem bundle_classification_witness:
  "Subject rootCert \<in> Issuer ` set [rootCert]
   \<and> ValidateBundle exampleEnv examplePool [rootCert] = Err NoLeafError
   \<and> classify (issuerMap_of [intermediateCert, leafCert]) [intermediateCert, leafCert]
       = ([intermediateCert], Some leafCert)"
proof (intro conjI)
  show "Subject rootCert \<in> Issuer ` set [rootCert]"
    by (simp add: example_names)
  then have a: "\<forall>cert \<in> set [rootCert]. Subject cert \<in> Issuer ` set [rootCert]"
    by simp
  show "ValidateBundle exampleEnv examplePool [rootCert] = Err NoLeafError"
    by (rule bundle_classification [of "[rootCert]" exampleEnv examplePool,
          THEN conjunct2, THEN iffD2, OF a])
  show "classify (issuerMap_of [intermediateCert, leafCert]) [intermediateCert, leafCert]
       = ([intermediateCert], Some leafCert)"
    unfolding bundle_classification [of "[intermediateCert, leafCert]" exampleEnv examplePool,
        THEN conjunct1]
    by (simp add: example_names)
qed

text \<open>
  C7. When the client certificate of a bundle has an issuer that is the subject of no
  certificate of the bundle, \<^verbatim>\<open>ValidateBundle\<close> returns what the validation of the
  client certificate against the pool gives: the client certificate when it succeeds, and
  the error with a prefix when it fails; the intermediates are not looked at. So a bundle
  of one leaf (a certificate that is not the issuer of a certificate of the bundle, here
  of itself), issued by a certificate of the pool that validates and under whose key the
  leaf validates, gives that leaf.
\<close>

theorem leaf_trusted_by_pool:
  "(snd (classify (issuerMap_of b) b) = Some L \<and> Issuer L \<notin> Subject ` set b \<longrightarrow>
      ValidateBundle E c b =
        (case Validate E c L of
           Ok _ \<Rightarrow> Ok L
         | Err e \<Rightarrow> Err (NoIssuerPrefix @ e)
         | Panic \<Rightarrow> Panic))
   \<and> (Subject L \<notin> Issuer ` set [L] \<and> c (Issuer L) = Some (Some R)
        \<and> validateCertificate E R (PubKey R) = Ok ()
        \<and> validateCertificate E L (PubKey R) = Ok () \<longrightarrow>
      ValidateBundle E c [L] = Ok L)"
proof -
  have g: "ValidateBundle E c b =
        (case Validate E c L of
           Ok _ \<Rightarrow> Ok L
         | Err e \<Rightarrow> Err (NoIssuerPrefix @ e)
         | Panic \<Rightarrow> Panic)"
    if "snd (classify (issuerMap_of b) b) = Some L" "Issuer L \<notin> Subject ` set b" for b
  proof -
    from that(1) have "classify (issuerMap_of b) b = (fst (classify (issuerMap_of b) b), Some L)"
      by (metis prod.collapse)
    from ValidateBundle_leaf[OF this] that(2) show ?thesis
      by (simp add: subjectMap_of_None_iff[THEN iffD2])
  qed
  have "ValidateBundle E c [L] = Ok L"
    if "Subject L \<notin> Issuer ` set [L]" "c (Issuer L) = Some (Some R)"
      "validateCertificate E R (PubKey R) = Ok ()" "validateCertificate E L (PubKey R) = Ok ()"
  proof -
    have "snd (classify (issuerMap_of [L]) [L]) = Some L"
      using that(1) by (simp add: classify_eq)
    moreover have "Issuer L \<notin> Subject ` set [L]"
      using that(1) by simp
    moreover have "Validate E c L = Ok ()"
      using that(3,4) by (simp add: Validate_present[where c=c and cert=L, OF that(2)])
    ultimately show ?thesis
      using g[of "[L]"] by simp
  qed
  with g[of b] show ?thesis by blast
qed

theorem leaf_trusted_by_pool_witness:
  "ValidateBundle exampleEnv examplePool [directCert] = Ok directCert
   \<and> ValidateBundle exampleEnv examplePool [leafCert]
       = Err (NoIssuerPrefix @ UnknownIssuerError)"
proof (intro conjI)
  have p: "examplePool (Issuer directCert) = Some (Some rootCert)"
    by (simp add: examplePool_def NewCertPool_def example_names)
  have r: "validateCertificate exampleEnv rootCert (PubKey rootCert) = Ok ()"
    by (simp add: eval_defs example_defs)
  have d: "validateCertificate exampleEnv directCert (PubKey rootCert) = Ok ()"
    by (simp add: eval_defs example_defs)
  have n: "Subject directCert \<notin> Issuer ` set [directCert]"
    by (simp add: example_names)
  show "ValidateBundle exampleEnv examplePool [directCert] = Ok directCert"
    using leaf_trusted_by_pool [of "[directCert]" directCert exampleEnv examplePool rootCert]
      p r d n by blast
  have l: "snd (classify (issuerMap_of [leafCert]) [leafCert]) = Some leafCert"
    by (simp add: classify_eq example_names)
  have i: "Issuer leafCert \<notin> Subject ` set [leafCert]"
    by (simp add: example_names)
  have v: "Validate exampleEnv examplePool leafCert = Err UnknownIssuerError"
    by (simp add: Validate_absent examplePool_def NewCertPool_def example_names)
  have "ValidateBundle exampleEnv examplePool [leafCert] =
        (case Validate exampleEnv examplePool leafCert of
           Ok _ \<Rightarrow> Ok leafCert
         | Err e \<Rightarrow> Err (NoIssuerPrefix @ e)
         | Panic \<Rightarrow> Panic)"
    using leaf_trusted_by_pool [of "[leafCert]" leafCert exampleEnv examplePool rootCert]
      l i by blast
  then show "ValidateBundle exampleEnv examplePool [leafCert]
       = Err (NoIssuerPrefix @ UnknownIssuerError)"
    by (simp add: v)
qed

lemma validateChain_Ok_iff:
  "validateChain E sm ints chainTop = Ok t \<longleftrightarrow>
     (\<forall>x \<in> set ints. \<forall>y. sm (Issuer x) = Some y \<longrightarrow> validateCertificate E x (PubKey y) = Ok ())
     \<and> t = fold (\<lambda>x a. if sm (Issuer x) = None then Some x else a) ints chainTop"
proof (induction ints arbitrary: chainTop)
  case Nil
  show ?case by auto
next
  case (Cons x ints)
  show ?case
  proof (cases "sm (Issuer x)")
    case None
    then show ?thesis using Cons.IH[of "Some x"] by simp
  next
    case (Some y)
    show ?thesis
    proof (cases "validateCertificate E x (PubKey y)")
      case (Ok u)
      then show ?thesis using Some Cons.IH[of chainTop] by simp
    next
      case (Err e)
      then show ?thesis using Some by simp
    next
      case Panic
      then show ?thesis using Some by simp
    qed
  qed
qed

text \<open>
  C3. A chain of three: a root \<open>R\<close> that the pool holds under its subject, an
  intermediate \<open>I\<close> issued by \<open>R\<close>, and a leaf \<open>L\<close> issued by \<open>I\<close>. \<open>L\<close> is a leaf,
  the issuer of no certificate of the bundle, and \<open>I\<close> is the top of the chain, its
  issuer \<open>R\<close> being no subject of the bundle. For the bundle of \<open>I\<close> and \<open>L\<close>, in
  either order, \<open>I\<close> is the only intermediate and \<open>L\<close> the client certificate, the
  issuer of \<open>L\<close> is found in the bundle as \<open>I\<close>, and the walk over the intermediates
  ends with \<open>I\<close> as top of the chain. \<^verbatim>\<open>ValidateBundle\<close> validates \<open>L\<close> under the key
  of \<open>I\<close>, then \<open>I\<close> against the pool, which is \<open>R\<close> under its own key and then
  \<open>I\<close> under the key of \<open>R\<close>: the first of these that fails decides the result, and
  \<open>L\<close> is returned exactly when all three succeed, as they do when the three
  certificates are signed as the chain says and are within their validity windows. In any
  bundle, the walk over the intermediates succeeds exactly when every intermediate whose
  issuer is in the bundle validates under the key of that issuer, and then gives the last
  intermediate whose issuer is not in the bundle.
\<close>

theorem three_level_chain:
  assumes "c (Subject R) = Some (Some R)"
    and "Issuer I = Subject R"
    and "Issuer L = Subject I"
    and "Subject L \<notin> Issuer ` set [I, L]"
    and "Issuer I \<notin> Subject ` set [I, L]"
  shows "classify (issuerMap_of [I, L]) [I, L] = ([I], Some L)
       \<and> classify (issuerMap_of [L, I]) [L, I] = ([I], Some L)
       \<and> subjectMap_of [I, L] (Issuer L) = Some I
       \<and> subjectMap_of [L, I] (Issuer L) = Some I
       \<and> validateChain E (subjectMap_of [I, L]) [I] None = Ok (Some I)
       \<and> validateChain E (subjectMap_of [L, I]) [I] None = Ok (Some I)
       \<and> ValidateBundle E c [I, L] =
           and_then (validateCertificate E L (PubKey I)) (\<lambda>_.
           and_then (case validateCertificate E R (PubKey R) of
                       Err e \<Rightarrow> Err (RootInvalidPrefix @ e)
                     | Panic \<Rightarrow> Panic
                     | Ok _ \<Rightarrow> validateCertificate E I (PubKey R)) (\<lambda>_. Ok L))
       \<and> ValidateBundle E c [L, I] = ValidateBundle E c [I, L]
       \<and> (ValidateBundle E c [I, L] = Ok L \<longleftrightarrow>
            validateCertificate E L (PubKey I) = Ok ()
          \<and> validateCertificate E R (PubKey R) = Ok ()
          \<and> validateCertificate E I (PubKey R) = Ok ())
       \<and> (validateChain E sm ints chainTop = Ok t \<longleftrightarrow>
            (\<forall>x \<in> set ints. \<forall>y. sm (Issuer x) = Some y
                \<longrightarrow> validateCertificate E x (PubKey y) = Ok ())
          \<and> t = fold (\<lambda>x a. if sm (Issuer x) = None then Some x else a) ints chainTop)"
proof -
  have d: "Subject I \<noteq> Subject R" "Subject L \<noteq> Subject I" "Subject L \<noteq> Subject R"
    using assms(2,3,4,5) by auto
  have c1: "classify (issuerMap_of [I, L]) [I, L] = ([I], Some L)"
    using assms(2,3) d by (simp add: classify_eq)
  have c2: "classify (issuerMap_of [L, I]) [L, I] = ([I], Some L)"
    using assms(2,3) d by (simp add: classify_eq)
  have s1: "subjectMap_of [I, L] (Issuer L) = Some I"
    using assms(3) d by (simp add: subjectMap_of_def)
  have s2: "subjectMap_of [L, I] (Issuer L) = Some I"
    using assms(3) d by (simp add: subjectMap_of_def)
  have t1: "subjectMap_of [I, L] (Issuer I) = None"
    using assms(2) d by (simp add: subjectMap_of_None_iff)
  have t2: "subjectMap_of [L, I] (Issuer I) = None"
    using assms(2) d by (simp add: subjectMap_of_None_iff)
  have w1: "validateChain E (subjectMap_of [I, L]) [I] None = Ok (Some I)"
    by (simp add: t1)
  have w2: "validateChain E (subjectMap_of [L, I]) [I] None = Ok (Some I)"
    by (simp add: t2)
  have "c (Issuer I) = Some (Some R)"
    using assms(1,2) by simp
  note v = Validate_present[where c=c and cert=I and E=E, OF this]
  let ?rhs = "and_then (validateCertificate E L (PubKey I)) (\<lambda>_.
           and_then (case validateCertificate E R (PubKey R) of
                       Err e \<Rightarrow> Err (RootInvalidPrefix @ e)
                     | Panic \<Rightarrow> Panic
                     | Ok _ \<Rightarrow> validateCertificate E I (PubKey R)) (\<lambda>_. Ok L))"
  have b1: "ValidateBundle E c [I, L] = ?rhs"
    by (simp add: ValidateBundle_leaf[OF c1] s1 w1 v and_then_def
        del: validateChain.simps)
  have b2: "ValidateBundle E c [L, I] = ?rhs"
    by (simp add: ValidateBundle_leaf[OF c2] s2 w2 v and_then_def
        del: validateChain.simps)
  have e: "?rhs = Ok L \<longleftrightarrow>
            validateCertificate E L (PubKey I) = Ok ()
          \<and> validateCertificate E R (PubKey R) = Ok ()
          \<and> validateCertificate E I (PubKey R) = Ok ()"
    by (auto simp: and_then_def split: result.splits)
  note g = validateChain_Ok_iff[of E sm ints chainTop t]
  from c1 c2 s1 s2 w1 w2 b1 b2 e g show ?thesis
    by (simp only: simp_thms)
qed

theorem three_level_chain_witness:
  "ValidateBundle exampleEnv examplePool [intermediateCert, leafCert] = Ok leafCert
   \<and> ValidateBundle exampleEnv examplePool [leafCert, intermediateCert] = Ok leafCert
   \<and> ValidateBundle exampleEnv examplePool [intermediateCert, leafCert\<lparr>SerialNumber := 4\<rparr>]
       = Err BadSignatureError
   \<and> validateChain exampleEnv (subjectMap_of [intermediateCert, leafCert])
         [intermediateCert, leafCert] None = Ok (Some intermediateCert)
   \<and> validateChain exampleEnv (subjectMap_of [intermediateCert, leafCert])
         [intermediateCert, leafCert\<lparr>SerialNumber := 4\<rparr>] None \<noteq> Ok (Some intermediateCert)"
proof -
  have p: "examplePool (Subject rootCert) = Some (Some rootCert)"
    by (simp add: examplePool_def NewCertPool_def example_names)
  have r: "validateCertificate exampleEnv rootCert (PubKey rootCert) = Ok ()"
    by (simp add: eval_defs example_defs)
  have i: "validateCertificate exampleEnv intermediateCert (PubKey rootCert) = Ok ()"
    by (simp add: eval_defs example_defs)
  have l: "validateCertificate exampleEnv leafCert (PubKey intermediateCert) = Ok ()"
    by (simp add: eval_defs example_defs)
  have l': "validateCertificate exampleEnv (leafCert\<lparr>SerialNumber := 4\<rparr>) (PubKey intermediateCert)
      = Err BadSignatureError"
    by (simp add: eval_defs example_defs)
  have n: "Issuer intermediateCert = Subject rootCert" "Issuer leafCert = Subject intermediateCert"
    "Subject leafCert \<notin> Issuer ` set [intermediateCert, leafCert]"
    "Issuer intermediateCert \<notin> Subject ` set [intermediateCert, leafCert]"
    by (simp_all add: example_names)
  have n': "Issuer (leafCert\<lparr>SerialNumber := 4\<rparr>) = Subject intermediateCert"
    "Subject (leafCert\<lparr>SerialNumber := 4\<rparr>)
       \<notin> Issuer ` set [intermediateCert, leafCert\<lparr>SerialNumber := 4\<rparr>]"
    "Issuer intermediateCert
       \<notin> Subject ` set [intermediateCert, leafCert\<lparr>SerialNumber := 4\<rparr>]"
    by (simp_all add: example_names)
  note t = three_level_chain [where c = examplePool and E = exampleEnv and R = rootCert
      and I = intermediateCert and L = leafCert, OF p n(1) n(2) n(3) n(4)]
  note t' = three_level_chain [where c = examplePool and E = exampleEnv and R = rootCert
      and I = intermediateCert and L = "leafCert\<lparr>SerialNumber := 4\<rparr>", OF p n(1) n'(1) n'(2) n'(3)]
  note order = t [THEN conjunct2, THEN conjunct2, THEN conjunct2, THEN conjunct2, THEN conjunct2, THEN conjunct2, THEN conjunct2, THEN conjunct1]
  note all_three = t [THEN conjunct2, THEN conjunct2, THEN conjunct2, THEN conjunct2, THEN conjunct2, THEN conjunct2, THEN conjunct2, THEN conjunct2, THEN conjunct1]
  have m: "subjectMap_of [intermediateCert, leafCert] (Issuer intermediateCert) = None"
    "subjectMap_of [intermediateCert, leafCert] (Issuer leafCert) = Some intermediateCert"
    "subjectMap_of [intermediateCert, leafCert] (Issuer (leafCert\<lparr>SerialNumber := 4\<rparr>))
       = Some intermediateCert"
    by (simp_all add: subjectMap_of_def example_names)
  note walk = t [where sm = "subjectMap_of [intermediateCert, leafCert]"
      and ints = "[intermediateCert, leafCert]" and chainTop = None
      and t = "Some intermediateCert", THEN conjunct2, THEN conjunct2, THEN conjunct2, THEN conjunct2, THEN conjunct2, THEN conjunct2, THEN conjunct2, THEN conjunct2, THEN conjunct2]
  note walk' = t [where sm = "subjectMap_of [intermediateCert, leafCert]"
      and ints = "[intermediateCert, leafCert\<lparr>SerialNumber := 4\<rparr>]" and chainTop = None
      and t = "Some intermediateCert", THEN conjunct2, THEN conjunct2, THEN conjunct2, THEN conjunct2, THEN conjunct2, THEN conjunct2, THEN conjunct2, THEN conjunct2, THEN conjunct2]
  have w: "validateChain exampleEnv (subjectMap_of [intermediateCert, leafCert])
         [intermediateCert, leafCert] None = Ok (Some intermediateCert)"
    unfolding walk by (simp add: m l)
  have w': "validateChain exampleEnv (subjectMap_of [intermediateCert, leafCert])
         [intermediateCert, leafCert\<lparr>SerialNumber := 4\<rparr>] None \<noteq> Ok (Some intermediateCert)"
    unfolding walk' by (simp add: m l')
  note steps' = t' [THEN conjunct2, THEN conjunct2, THEN conjunct2, THEN conjunct2, THEN conjunct2, THEN conjunct2, THEN conjunct1]
  have a: "ValidateBundle exampleEnv examplePool [intermediateCert, leafCert] = Ok leafCert"
    using all_three r i l by simp
  moreover have "ValidateBundle exampleEnv examplePool [leafCert, intermediateCert] = Ok leafCert"
    using order a by simp
  moreover have "ValidateBundle exampleEnv examplePool [intermediateCert, leafCert\<lparr>SerialNumber := 4\<rparr>]
       = Err BadSignatureError"
    unfolding steps' by (simp add: l' and_then_def)
  ultimately show ?thesis using w w' by simp
qed

end
